theory Spec2Isabelle
  imports Complex_Main
begin

section \<open>Data model (src/types/index.ts)\<close>

text \<open>
  A JavaScript number is an IEEE 754 binary64 value. The type \<open>num\<close> holds such a
  value: a finite one (by its exact real value), one of the two infinities, or NaN. The
  two zeros are not distinguished.

  The coordinates of a landmark, the measurements of a feature record and the image sizes
  are finite numbers; their fields have type \<open>real\<close> and hold the exact value of the
  double. Everything the cross-photo analysis, the rules and the score compute from them
  has type \<open>num\<close> and is computed with the rounding of binary64 arithmetic (section
  Numbers).
\<close>

datatype num = Num real | PInf | NInf | NaN

text \<open>MediaPipe landmark structure. The optional field is an \<open>option\<close>.\<close>

record Landmark =
  lm_x :: real
  lm_y :: real
  lm_z :: real
  lm_visibility :: "real option"

datatype PedalPosition = SixOClock | ThreeOClock

text \<open>
  A landmark array. An entry of a JavaScript array may be \<open>null\<close> or \<open>undefined\<close>, and a
  read past the end yields \<open>undefined\<close>; both are \<open>None\<close> here, which is what the
  source's test \<open>!knee\<close> detects.
\<close>

type_synonym LandmarkArray = "Landmark option list"

definition at_index :: "LandmarkArray \<Rightarrow> nat \<Rightarrow> Landmark option" where
  "at_index landmarks i = (if i < length landmarks then landmarks ! i else None)"

record PoseAnalysis =
  kneeAngle :: real
  torsoAngle :: real
  elbowAngle :: real
  reachDistance :: real
  saddleHeight :: real
  landmarks :: "LandmarkArray option"
  imageData :: "string option"
  imageWidth :: "real option"
  imageHeight :: "real option"
  pedalPosition :: "PedalPosition option"

record PhotoAnalysis =
  position :: PedalPosition
  analysis :: PoseAnalysis

record Point2D =
  pt_x :: real
  pt_y :: real

text \<open>
  KOPSAnalysis. Its field \<open>pedalPosition\<close> (the ankle point) is named \<open>kopsPedalPosition\<close>
  here, since PoseAnalysis already has a field of that name.
\<close>

record KOPSAnalysis =
  kneePosition :: Point2D
  kopsPedalPosition :: Point2D
  horizontalOffset :: num
  isOptimal :: bool

record PosturalConsistency =
  torsoAngleDifference :: num
  elbowAngleDifference :: num
  isConsistent :: bool
  issues :: "string list"

datatype RecommendationType =
  saddle_height | saddle_fore_aft | handlebar_height | stem_length | cleat_position
  | core_stability

datatype Priority = high | medium | low

datatype BasedOn = knee_angle | torso_angle | elbow_angle | kops | postural_consistency

record FitRecommendation =
  rec_type :: RecommendationType
  currentValue :: num
  recommendedValue :: num
  adjustment :: string
  priority :: Priority
  description :: string
  basedOn :: BasedOn


text \<open>The failures of the source: the three thrown errors and the 400 response.\<close>

datatype error =
  InsufficientLandmarks   \<comment> \<open>Insufficient pose landmarks detected\<close>
  | MissingBodyParts      \<comment> \<open>Could not detect all required body parts\<close>
  | KOPSDetectionFailed   \<comment> \<open>Could not detect knee or ankle for KOPS analysis\<close>
  | BothPhotosRequired    \<comment> \<open>status 400: both photos are required\<close>

section \<open>Numbers\<close>

text \<open>
  Rounding to binary64, to nearest with ties to even. Around a value \<open>v\<close> the doubles
  are the multiples of \<open>2 powi (e - 52)\<close>, where \<open>e\<close> is the exponent of \<open>v\<close>, the
  integer with \<open>2 powi e \<le> \<bar>v\<bar> < 2 powi (e + 1)\<close>, and never less than -1022 (below
  that the doubles are subnormal and keep the spacing \<open>2 powi (- 1074)\<close>). A result of
  magnitude \<open>2 ^ 1024\<close> or more is an infinity. Lemma \<open>fl_eval\<close> below evaluates a
  rounding from the two powers of two that enclose the value.
\<close>

definition roundHalfEven :: "real \<Rightarrow> int" where
  "roundHalfEven v =
     (let n = \<lfloor>v\<rfloor>; d = v - of_int n
      in if d < 1 / 2 then n else if d > 1 / 2 then n + 1 else if even n then n else n + 1)"

definition binade :: "real \<Rightarrow> int" where
  "binade v = max \<lfloor>log 2 \<bar>v\<bar>\<rfloor> (- 1022)"

definition overflowBound :: real where
  "overflowBound = 2 ^ 1024"

definition fl :: "real \<Rightarrow> num" where
  "fl v =
     (if v = 0 then Num 0
      else
        let q = 2 powi (binade v - 52);
            r = of_int (roundHalfEven (v / q)) * q
        in if r \<ge> overflowBound then PInf
           else if r \<le> - overflowBound then NInf
           else Num r)"

text \<open>
  The four arithmetic operators: the exact result of two finite operands is rounded;
  the infinities and NaN follow IEEE 754. A zero divisor counts as +0.
\<close>

fun fadd :: "num \<Rightarrow> num \<Rightarrow> num" where
  "fadd (Num a) (Num b) = fl (a + b)"
| "fadd NaN _ = NaN"
| "fadd _ NaN = NaN"
| "fadd PInf NInf = NaN"
| "fadd NInf PInf = NaN"
| "fadd PInf _ = PInf"
| "fadd _ PInf = PInf"
| "fadd NInf _ = NInf"
| "fadd _ NInf = NInf"

fun fsub :: "num \<Rightarrow> num \<Rightarrow> num" where
  "fsub (Num a) (Num b) = fl (a - b)"
| "fsub NaN _ = NaN"
| "fsub _ NaN = NaN"
| "fsub PInf PInf = NaN"
| "fsub NInf NInf = NaN"
| "fsub PInf _ = PInf"
| "fsub _ NInf = PInf"
| "fsub NInf _ = NInf"
| "fsub _ PInf = NInf"

fun fmul :: "num \<Rightarrow> num \<Rightarrow> num" where
  "fmul (Num a) (Num b) = fl (a * b)"
| "fmul NaN _ = NaN"
| "fmul _ NaN = NaN"
| "fmul PInf (Num b) = (if b = 0 then NaN else if b > 0 then PInf else NInf)"
| "fmul NInf (Num b) = (if b = 0 then NaN else if b > 0 then NInf else PInf)"
| "fmul (Num a) PInf = (if a = 0 then NaN else if a > 0 then PInf else NInf)"
| "fmul (Num a) NInf = (if a = 0 then NaN else if a > 0 then NInf else PInf)"
| "fmul PInf PInf = PInf"
| "fmul NInf NInf = PInf"
| "fmul PInf NInf = NInf"
| "fmul NInf PInf = NInf"

fun fdiv :: "num \<Rightarrow> num \<Rightarrow> num" where
  "fdiv (Num a) (Num b) =
     (if b = 0 then (if a = 0 then NaN else if a > 0 then PInf else NInf) else fl (a / b))"
| "fdiv NaN _ = NaN"
| "fdiv _ NaN = NaN"
| "fdiv PInf (Num b) = (if b \<ge> 0 then PInf else NInf)"
| "fdiv NInf (Num b) = (if b \<ge> 0 then NInf else PInf)"
| "fdiv (Num a) _ = Num 0"
| "fdiv _ _ = NaN"

text \<open>The comparisons \<open><\<close> and \<open><=\<close>: false as soon as one side is NaN.\<close>

fun flt :: "num \<Rightarrow> num \<Rightarrow> bool" where
  "flt (Num a) (Num b) = (a < b)"
| "flt NaN _ = False"
| "flt _ NaN = False"
| "flt _ NInf = False"
| "flt NInf _ = True"
| "flt PInf _ = False"
| "flt _ PInf = True"

fun fle :: "num \<Rightarrow> num \<Rightarrow> bool" where
  "fle (Num a) (Num b) = (a \<le> b)"
| "fle NaN _ = False"
| "fle _ NaN = False"
| "fle NInf _ = True"
| "fle _ PInf = True"
| "fle _ _ = False"

text \<open>\<open>Math.abs\<close>, and \<open>Math.min\<close> and \<open>Math.max\<close> of two arguments.\<close>

fun Math_abs :: "num \<Rightarrow> num" where
  "Math_abs (Num a) = Num \<bar>a\<bar>"
| "Math_abs PInf = PInf"
| "Math_abs NInf = PInf"
| "Math_abs NaN = NaN"

definition Math_min :: "num \<Rightarrow> num \<Rightarrow> num" where
  "Math_min a b = (if a = NaN \<or> b = NaN then NaN else if flt a b then a else b)"

definition Math_max :: "num \<Rightarrow> num \<Rightarrow> num" where
  "Math_max a b = (if a = NaN \<or> b = NaN then NaN else if flt a b then b else a)"

text \<open>
  \<open>Math.round\<close>: the nearest integer, a tie going up. The result is exact: for a
  double of magnitude below \<open>2 ^ 52\<close> the nearest integer is a double, and a larger
  double is an integer already.
\<close>

definition js_round :: "real \<Rightarrow> int" where
  "js_round v = \<lfloor>v + 1 / 2\<rfloor>"

fun Math_round :: "num \<Rightarrow> num" where
  "Math_round (Num a) = Num (of_int (js_round a))"
| "Math_round PInf = PInf"
| "Math_round NInf = NInf"
| "Math_round NaN = NaN"

text \<open>
  A value of type \<open>num\<close> is a double when it is an infinity, NaN, or a finite value
  that rounding leaves as it is.
\<close>

fun isDouble :: "num \<Rightarrow> bool" where
  "isDouble (Num a) = (fl a = Num a)"
| "isDouble _ = True"

text \<open>The literal \<open>0.05\<close> of the source: the double nearest to one twentieth.\<close>

definition double_0_05 :: real where
  "double_0_05 = 3602879701896397 / 2 ^ 56"

text \<open>
  \<open>Math.atan2(y, x)\<close>. The language leaves the last bits of \<open>Math.atan2\<close> and
  \<open>Math.sqrt\<close> to the implementation, so the feature extractor below is written with
  the exact functions and exact arithmetic; what is proved of it are its failure
  conditions and which array entries it reads.
\<close>

definition atan2 :: "real \<Rightarrow> real \<Rightarrow> real" where
  "atan2 b a =
     (if a > 0 then arctan (b / a)
      else if a < 0 \<and> b \<ge> 0 then arctan (b / a) + pi
      else if a < 0 then arctan (b / a) - pi
      else if b > 0 then pi / 2
      else if b < 0 then - (pi / 2)
      else 0)"

section \<open>Per-photo feature extraction (lib/poseAnalysis.ts)\<close>

text \<open>MediaPipe pose landmark indices of the feature extractor.\<close>

definition LEFT_SHOULDER :: nat where "LEFT_SHOULDER = 11"
definition RIGHT_SHOULDER :: nat where "RIGHT_SHOULDER = 12"
definition LEFT_ELBOW :: nat where "LEFT_ELBOW = 13"
definition RIGHT_ELBOW :: nat where "RIGHT_ELBOW = 14"
definition LEFT_WRIST :: nat where "LEFT_WRIST = 15"
definition RIGHT_WRIST :: nat where "RIGHT_WRIST = 16"
definition LEFT_HIP :: nat where "LEFT_HIP = 23"
definition RIGHT_HIP :: nat where "RIGHT_HIP = 24"
definition LEFT_KNEE :: nat where "LEFT_KNEE = 25"
definition RIGHT_KNEE :: nat where "RIGHT_KNEE = 26"
definition LEFT_ANKLE :: nat where "LEFT_ANKLE = 27"
definition RIGHT_ANKLE :: nat where "RIGHT_ANKLE = 28"

lemmas POSE_LANDMARKS_defs =
  LEFT_SHOULDER_def RIGHT_SHOULDER_def LEFT_ELBOW_def RIGHT_ELBOW_def LEFT_WRIST_def
  RIGHT_WRIST_def LEFT_HIP_def RIGHT_HIP_def LEFT_KNEE_def RIGHT_KNEE_def LEFT_ANKLE_def
  RIGHT_ANKLE_def

definition calculateInteriorAngle :: "Landmark \<Rightarrow> Landmark \<Rightarrow> Landmark \<Rightarrow> real" where
  "calculateInteriorAngle a b c =
     (let radians = atan2 (lm_y c - lm_y b) (lm_x c - lm_x b)
                    - atan2 (lm_y a - lm_y b) (lm_x a - lm_x b);
          angle = \<bar>radians * 180 / pi\<bar>
      in if angle > 180 then 360 - angle else angle)"

definition calculateKneeBendAngle :: "Landmark \<Rightarrow> Landmark \<Rightarrow> Landmark \<Rightarrow> real" where
  "calculateKneeBendAngle hip knee ankle =
     (let interiorAngle = calculateInteriorAngle hip knee ankle in 180 - interiorAngle)"

definition calculateDistance :: "Landmark \<Rightarrow> Landmark \<Rightarrow> real" where
  "calculateDistance a b = sqrt ((lm_x a - lm_x b)\<^sup>2 + (lm_y a - lm_y b)\<^sup>2)"

text \<open>The part of an HTMLImageElement the extractor reads.\<close>

record HTMLImageElement =
  naturalWidth :: real
  elemWidth :: real
  naturalHeight :: real
  elemHeight :: real

text \<open>\<open>a || b\<close> on numbers: \<open>b\<close> when \<open>a\<close> is 0 (or absent).\<close>

definition or_else :: "real \<Rightarrow> real \<Rightarrow> real" where
  "or_else a b = (if a \<noteq> 0 then a else b)"

definition round1 :: "real \<Rightarrow> real" where
  "round1 v = real_of_int (js_round (v * 10)) / 10"

definition analyzeBikeFit ::
  "LandmarkArray \<Rightarrow> PedalPosition \<Rightarrow> HTMLImageElement option \<Rightarrow> error + PoseAnalysis" where
  "analyzeBikeFit lms pedal imageElement =
     (if length lms < 33 then Inl InsufficientLandmarks
      else
        case (at_index lms RIGHT_SHOULDER, at_index lms RIGHT_ELBOW, at_index lms RIGHT_WRIST,
              at_index lms RIGHT_HIP, at_index lms RIGHT_KNEE, at_index lms RIGHT_ANKLE) of
          (Some shoulder, Some elbow, Some wrist, Some hip, Some knee, Some ankle) \<Rightarrow>
            (let kneeBendAngle = calculateKneeBendAngle hip knee ankle;
                 verticalReference = \<lparr>lm_x = lm_x hip, lm_y = lm_y hip - 0.1, lm_z = lm_z hip,
                                      lm_visibility = None\<rparr>;
                 torso = calculateInteriorAngle verticalReference hip shoulder;
                 elbowA = calculateInteriorAngle shoulder elbow wrist;
                 reach = \<bar>lm_x shoulder - lm_x wrist\<bar> * 100;
                 saddle = calculateDistance hip ankle * 100
             in Inr \<lparr>kneeAngle = round1 kneeBendAngle,
                     torsoAngle = round1 torso,
                     elbowAngle = round1 elbowA,
                     reachDistance = round1 reach,
                     saddleHeight = round1 saddle,
                     landmarks = Some lms,
                     imageData = None,
                     imageWidth = map_option (\<lambda>i. or_else (naturalWidth i) (elemWidth i)) imageElement,
                     imageHeight = map_option (\<lambda>i. or_else (naturalHeight i) (elemHeight i)) imageElement,
                     pedalPosition = Some pedal\<rparr>)
        | _ \<Rightarrow> Inl MissingBodyParts)"

section \<open>Cross-photo analysis (app/api/analyze/route.ts)\<close>

text \<open>The index table local to \<open>calculateKOPS\<close>, under the names it has there.\<close>

definition KOPS_RIGHT_HIP :: nat where "KOPS_RIGHT_HIP = 23"
definition KOPS_RIGHT_KNEE :: nat where "KOPS_RIGHT_KNEE = 25"
definition KOPS_RIGHT_ANKLE :: nat where "KOPS_RIGHT_ANKLE = 27"

text \<open>\<open>imageWidth || 640\<close>: an absent or zero width falls back to 640.\<close>

definition width_or_640 :: "real option \<Rightarrow> real" where
  "width_or_640 w = (case w of None \<Rightarrow> 640 | Some v \<Rightarrow> or_else v 640)"

definition calculateKOPS :: "LandmarkArray \<Rightarrow> real option \<Rightarrow> error + KOPSAnalysis" where
  "calculateKOPS lms imgWidth =
     (case (at_index lms KOPS_RIGHT_KNEE, at_index lms KOPS_RIGHT_ANKLE) of
        (Some knee, Some ankle) \<Rightarrow>
          (let offset = fmul (fmul (fsub (Num (lm_x knee)) (Num (lm_x ankle)))
                                   (Num (width_or_640 imgWidth)))
                             (Num double_0_05)
           in Inr \<lparr>kneePosition = \<lparr>pt_x = lm_x knee, pt_y = lm_y knee\<rparr>,
                   kopsPedalPosition = \<lparr>pt_x = lm_x ankle, pt_y = lm_y ankle\<rparr>,
                   horizontalOffset = offset,
                   isOptimal = fle (Math_abs offset) (Num 2)\<rparr>)
      | _ \<Rightarrow> Inl KOPSDetectionFailed)"

definition torso_issue :: string where
  "torso_issue =
     ''Significant torso angle variation between pedal positions suggests instability''"

definition elbow_issue :: string where
  "elbow_issue =
     ''Large elbow angle variation indicates excessive reach or poor core stability''"

definition analyzePosturalConsistency :: "PoseAnalysis \<Rightarrow> PoseAnalysis \<Rightarrow> PosturalConsistency" where
  "analyzePosturalConsistency six three =
     (let torsoDiff = Math_abs (fsub (Num (torsoAngle six)) (Num (torsoAngle three)));
          elbowDiff = Math_abs (fsub (Num (elbowAngle six)) (Num (elbowAngle three)));
          issues0 = [];
          issues1 = (if flt (Num 10) torsoDiff then issues0 @ [torso_issue] else issues0);
          issues2 = (if flt (Num 15) elbowDiff then issues1 @ [elbow_issue] else issues1)
      in \<lparr>torsoAngleDifference = torsoDiff,
          elbowAngleDifference = elbowDiff,
          isConsistent = (length issues2 = 0),
          issues = issues2\<rparr>)"

section \<open>Recommendation and scoring engine (app/api/analyze/route.ts)\<close>

text \<open>
  \<open>Number.prototype.toFixed(1)\<close> for magnitudes below \<open>10^21\<close> (above it JavaScript
  switches to exponent notation, which is not modelled): the nearest multiple of one
  tenth, a tie going to the larger magnitude, written with one fractional digit.
\<close>

fun digitsOf :: "nat \<Rightarrow> string" where
  "digitsOf n =
     (if n < 10 then [char_of (48 + n)]
      else digitsOf (n div 10) @ [char_of (48 + n mod 10)])"

declare digitsOf.simps [simp del]

definition toFixed1 :: "real \<Rightarrow> string" where
  "toFixed1 v =
     (let n = nat \<lfloor>\<bar>v\<bar> * 10 + 1 / 2\<rfloor>
      in (if v < 0 then ''-'' else []) @ digitsOf (n div 10) @ ''.'' @ digitsOf (n mod 10))"

text \<open>The degree sign U+00B0 of the description templates.\<close>

definition degree_sign :: char where
  "degree_sign = char_of (176 :: nat)"

definition saddle_too_high_text :: "real \<Rightarrow> string" where
  "saddle_too_high_text k =
     ''Your knee bend is '' @ toFixed1 k @ [degree_sign] @
     '' at bottom dead center, which is too straight. The saddle appears too high, reducing power output and potentially causing hip rocking.''"

definition saddle_too_low_text :: "real \<Rightarrow> string" where
  "saddle_too_low_text k =
     ''Your knee bend is '' @ toFixed1 k @ [degree_sign] @
     '' at bottom dead center, which is too much bend. The saddle appears too low, limiting power generation and potentially causing knee strain.''"

definition knee_forward_text :: string where
  "knee_forward_text =
     ''Your knee is too far forward over the pedal axle, which can reduce pedaling efficiency and cause anterior knee pain.''"

definition knee_behind_text :: string where
  "knee_behind_text =
     ''Your knee is too far behind the pedal axle, reducing power transfer and potentially overloading your lower back.''"

definition aggressive_text :: string where
  "aggressive_text =
     ''Very aggressive position detected. Consider raising handlebars for improved comfort and sustainable aerodynamics.''"

definition upright_text :: string where
  "upright_text =
     ''Position is quite upright. Lowering handlebars will improve aerodynamics and power transfer.''"

definition arms_bent_text :: string where
  "arms_bent_text =
     ''Arms are too bent, indicating the cockpit may be too short. This can cause discomfort and poor weight distribution.''"

definition arms_straight_text :: string where
  "arms_straight_text =
     ''Arms are too straight/locked, indicating the cockpit may be too long. This reduces control and comfort.''"

definition core_text :: string where
  "core_text =
     ''Significant postural variations detected between pedal positions. Consider core strengthening exercises and ensure your fit allows for stable, consistent positioning.''"

text \<open>
  \<open>Array.prototype.sort\<close> with a comparator is a stable sort: \<open>a\<close> stays before
  \<open>b\<close> unless the comparator is positive on \<open>(a, b)\<close>. The model inserts the elements
  from the right, each in front of the first element it does not have to follow.
\<close>

fun insertBy :: "('a \<Rightarrow> 'a \<Rightarrow> int) \<Rightarrow> 'a \<Rightarrow> 'a list \<Rightarrow> 'a list" where
  "insertBy cmp a [] = [a]"
| "insertBy cmp a (b # bs) = (if cmp a b \<le> 0 then a # b # bs else b # insertBy cmp a bs)"

definition stableSortBy :: "('a \<Rightarrow> 'a \<Rightarrow> int) \<Rightarrow> 'a list \<Rightarrow> 'a list" where
  "stableSortBy cmp as = foldr (insertBy cmp) as []"

fun priorityOrder :: "Priority \<Rightarrow> int" where
  "priorityOrder high = 3"
| "priorityOrder medium = 2"
| "priorityOrder low = 1"

definition comparePriority :: "FitRecommendation \<Rightarrow> FitRecommendation \<Rightarrow> int" where
  "comparePriority a b = priorityOrder (priority b) - priorityOrder (priority a)"

text \<open>
  The rules of the recommendation engine. The array \<open>recommendations\<close> is the state:
  each rule takes the array built so far and returns it, with its own push appended
  when it fires.
\<close>

definition saddleHeightRule :: "PoseAnalysis \<Rightarrow> FitRecommendation list \<Rightarrow> FitRecommendation list" where
  "saddleHeightRule six recs =
     (if kneeAngle six < 25 then
        recs @ [\<lparr>rec_type = saddle_height, currentValue = Num (kneeAngle six),
                  recommendedValue = Num 30, adjustment = ''Raise saddle by 5-15mm'',
                  priority = high, description = saddle_too_high_text (kneeAngle six),
                  basedOn = knee_angle\<rparr>]
      else if kneeAngle six > 35 then
        recs @ [\<lparr>rec_type = saddle_height, currentValue = Num (kneeAngle six),
                  recommendedValue = Num 30, adjustment = ''Lower saddle by 5-15mm'',
                  priority = high, description = saddle_too_low_text (kneeAngle six),
                  basedOn = knee_angle\<rparr>]
      else recs)"

text \<open>
  The three-o'clock knee check only writes a console warning: both of its branches leave
  the array as it is.
\<close>

definition threeOClockCheck :: "PoseAnalysis \<Rightarrow> FitRecommendation list \<Rightarrow> FitRecommendation list" where
  "threeOClockCheck three recs =
     (if kneeAngle three < 60 \<or> kneeAngle three > 100 then recs else recs)"

definition foreAftRule :: "KOPSAnalysis \<Rightarrow> FitRecommendation list \<Rightarrow> FitRecommendation list" where
  "foreAftRule kopsA recs =
     (if \<not> isOptimal kopsA then
        (if flt (Num 2) (horizontalOffset kopsA) then
           recs @ [\<lparr>rec_type = saddle_fore_aft, currentValue = horizontalOffset kopsA,
                     recommendedValue = Num 0, adjustment = ''Move saddle backward 5-10mm'',
                     priority = medium, description = knee_forward_text,
                     basedOn = kops\<rparr>]
         else if flt (horizontalOffset kopsA) (Num (- 2)) then
           recs @ [\<lparr>rec_type = saddle_fore_aft, currentValue = horizontalOffset kopsA,
                     recommendedValue = Num 0, adjustment = ''Move saddle forward 5-10mm'',
                     priority = medium, description = knee_behind_text,
                     basedOn = kops\<rparr>]
         else recs)
      else recs)"

definition handlebarRule ::
  "PoseAnalysis \<Rightarrow> PoseAnalysis \<Rightarrow> FitRecommendation list \<Rightarrow> FitRecommendation list" where
  "handlebarRule six three recs =
     (let avgTorsoAngle = fdiv (fadd (Num (torsoAngle six)) (Num (torsoAngle three))) (Num 2)
      in if flt avgTorsoAngle (Num 35) then
           recs @ [\<lparr>rec_type = handlebar_height, currentValue = avgTorsoAngle,
                     recommendedValue = Num 45,
                     adjustment = ''Raise handlebars by 10-20mm or use shorter stem'',
                     priority = medium, description = aggressive_text,
                     basedOn = torso_angle\<rparr>]
         else if flt (Num 55) avgTorsoAngle then
           recs @ [\<lparr>rec_type = handlebar_height, currentValue = avgTorsoAngle,
                     recommendedValue = Num 45, adjustment = ''Lower handlebars by 10-20mm'',
                     priority = medium, description = upright_text,
                     basedOn = torso_angle\<rparr>]
         else recs)"

definition stemRule ::
  "PoseAnalysis \<Rightarrow> PoseAnalysis \<Rightarrow> FitRecommendation list \<Rightarrow> FitRecommendation list" where
  "stemRule six three recs =
     (let avgElbowAngle = fdiv (fadd (Num (elbowAngle six)) (Num (elbowAngle three))) (Num 2)
      in if flt avgElbowAngle (Num 150) then
           recs @ [\<lparr>rec_type = stem_length, currentValue = avgElbowAngle,
                     recommendedValue = Num 155,
                     adjustment = ''Try a longer stem (+10-20mm) or move saddle back'',
                     priority = medium, description = arms_bent_text,
                     basedOn = elbow_angle\<rparr>]
         else if flt (Num 165) avgElbowAngle then
           recs @ [\<lparr>rec_type = stem_length, currentValue = avgElbowAngle,
                     recommendedValue = Num 155,
                     adjustment = ''Try a shorter stem (-10-20mm) or move saddle forward'',
                     priority = medium, description = arms_straight_text,
                     basedOn = elbow_angle\<rparr>]
         else recs)"

definition coreStabilityRule ::
  "PosturalConsistency \<Rightarrow> FitRecommendation list \<Rightarrow> FitRecommendation list" where
  "coreStabilityRule pc recs =
     (if \<not> isConsistent pc then
        recs @ [\<lparr>rec_type = core_stability,
                  currentValue = Math_max (torsoAngleDifference pc) (elbowAngleDifference pc),
                  recommendedValue = Num 5,
                  adjustment = ''Focus on core strengthening and bike fit stability'',
                  priority = low, description = core_text,
                  basedOn = postural_consistency\<rparr>]
      else recs)"

text \<open>The array after the last rule, in the order of the pushes, before the final sort.\<close>

definition pushedRecommendations ::
  "PoseAnalysis \<Rightarrow> PoseAnalysis \<Rightarrow> KOPSAnalysis \<Rightarrow> PosturalConsistency \<Rightarrow> FitRecommendation list" where
  "pushedRecommendations six three kopsA pc =
     coreStabilityRule pc (stemRule six three (handlebarRule six three
       (foreAftRule kopsA (threeOClockCheck three (saddleHeightRule six [])))))"

definition generateEnhancedRecommendations ::
  "PoseAnalysis \<Rightarrow> PoseAnalysis \<Rightarrow> KOPSAnalysis \<Rightarrow> PosturalConsistency \<Rightarrow> FitRecommendation list" where
  "generateEnhancedRecommendations six three kopsA pc =
     stableSortBy comparePriority (pushedRecommendations six three kopsA pc)"

text \<open>
  The score is a running value that starts at 100; every check either leaves it or
  subtracts from it. One function per check, in the order of the source.
\<close>

definition kneeSixStep :: "PoseAnalysis \<Rightarrow> num \<Rightarrow> num" where
  "kneeSixStep six score =
     (if kneeAngle six < 25 \<or> kneeAngle six > 35 then
        (let deviation = Math_min (Math_abs (fsub (Num (kneeAngle six)) (Num 25)))
                                  (Math_abs (fsub (Num (kneeAngle six)) (Num 35)))
         in fsub score (fmul deviation (Num 2)))
      else score)"

definition kneeThreeStep :: "PoseAnalysis \<Rightarrow> num \<Rightarrow> num" where
  "kneeThreeStep three score =
     (if kneeAngle three < 60 \<or> kneeAngle three > 100 then fsub score (Num 10) else score)"

definition torsoStep :: "PoseAnalysis \<Rightarrow> PoseAnalysis \<Rightarrow> num \<Rightarrow> num" where
  "torsoStep six three score =
     (let avgTorsoAngle = fdiv (fadd (Num (torsoAngle six)) (Num (torsoAngle three))) (Num 2)
      in if flt avgTorsoAngle (Num 35) \<or> flt (Num 55) avgTorsoAngle
         then fsub score (fmul (Math_abs (fsub avgTorsoAngle (Num 45))) (Num 1))
         else score)"

definition elbowStep :: "PoseAnalysis \<Rightarrow> PoseAnalysis \<Rightarrow> num \<Rightarrow> num" where
  "elbowStep six three score =
     (let avgElbowAngle = fdiv (fadd (Num (elbowAngle six)) (Num (elbowAngle three))) (Num 2)
      in if flt avgElbowAngle (Num 150) \<or> flt (Num 165) avgElbowAngle
         then fsub score (fmul (Math_abs (fsub avgElbowAngle (Num 157.5))) (Num 0.5))
         else score)"

definition kopsStep :: "KOPSAnalysis \<Rightarrow> num \<Rightarrow> num" where
  "kopsStep kopsA score =
     (if \<not> isOptimal kopsA then fsub score (fmul (Math_abs (horizontalOffset kopsA)) (Num 2))
      else score)"

definition consistencyStep :: "PosturalConsistency \<Rightarrow> num \<Rightarrow> num" where
  "consistencyStep pc score =
     (if \<not> isConsistent pc
      then fsub score
             (fmul (fadd (torsoAngleDifference pc) (elbowAngleDifference pc)) (Num 0.5))
      else score)"

text \<open>The value of \<open>score\<close> when the source reaches its \<open>return\<close>.\<close>

definition enhancedScoreBeforeClamp ::
  "PoseAnalysis \<Rightarrow> PoseAnalysis \<Rightarrow> KOPSAnalysis \<Rightarrow> PosturalConsistency \<Rightarrow> num" where
  "enhancedScoreBeforeClamp six three kopsA pc =
     consistencyStep pc (kopsStep kopsA (elbowStep six three (torsoStep six three
       (kneeThreeStep three (kneeSixStep six (Num 100))))))"

definition calculateEnhancedScore ::
  "PoseAnalysis \<Rightarrow> PoseAnalysis \<Rightarrow> KOPSAnalysis \<Rightarrow> PosturalConsistency \<Rightarrow> num" where
  "calculateEnhancedScore six three kopsA pc =
     Math_max (Num 0) (Math_min (Num 100)
       (Math_round (enhancedScoreBeforeClamp six three kopsA pc)))"

section \<open>The two-photo request (POST, app/api/analyze/route.ts)\<close>

text \<open>The KOPS result the handler substitutes when \<open>calculateKOPS\<close> throws.\<close>

definition defaultKOPS :: KOPSAnalysis where
  "defaultKOPS =
     \<lparr>kneePosition = \<lparr>pt_x = 0.5, pt_y = 0.5\<rparr>,
      kopsPedalPosition = \<lparr>pt_x = 0.5, pt_y = 0.5\<rparr>,
      horizontalOffset = Num 0,
      isOptimal = True\<rparr>"





section \<open>Sample inputs\<close>

text \<open>A feature record with the given knee, torso and elbow angles, and a KOPS result
  with the given offset, for the concrete evaluations below.\<close>

definition poseWith :: "real \<Rightarrow> real \<Rightarrow> real \<Rightarrow> PoseAnalysis" where
  "poseWith k t e =
     \<lparr>kneeAngle = k, torsoAngle = t, elbowAngle = e, reachDistance = 45, saddleHeight = 72,
      landmarks = None, imageData = None, imageWidth = None, imageHeight = None,
      pedalPosition = None\<rparr>"

definition kopsWith :: "real \<Rightarrow> KOPSAnalysis" where
  "kopsWith off =
     \<lparr>kneePosition = \<lparr>pt_x = 0.5, pt_y = 0.5\<rparr>, kopsPedalPosition = \<lparr>pt_x = 0.5, pt_y = 0.5\<rparr>,
      horizontalOffset = Num off, isOptimal = (\<bar>off\<bar> \<le> 2)\<rparr>"

text \<open>A landmark at the given image position; a 33-entry landmark array whose
  entries 25 and 27 differ from the rest; and a two-photo request whose three-o'clock array
  has no entry 27. All coordinates are doubles.\<close>

definition lmAt :: "real \<Rightarrow> real \<Rightarrow> Landmark" where
  "lmAt a b = \<lparr>lm_x = a, lm_y = b, lm_z = 0, lm_visibility = None\<rparr>"

definition fullBody :: LandmarkArray where
  "fullBody = (replicate 33 (Some (lmAt 0.5 0.5)))
                [25 := Some (lmAt 0.75 0.625), 27 := Some (lmAt 0.5 0.875)]"




text \<open>
  Inputs on which the rounding shows. The feature records hold the doubles nearest to
  29.8, 25.6 and 154.9 (six o'clock) and to 43.4 and 140.5 (three o'clock); the landmark
  array holds a knee at the double nearest to x = 0.8 and an ankle at the double nearest to
  x = 0.7.
\<close>

definition roundingSix :: PoseAnalysis where
  "roundingSix =
     poseWith (8387954305977549 / 281474976710656) (3602879701896397 / 140737488355328)
       (5450059236560077 / 35184372088832)"

definition roundingThree :: "real \<Rightarrow> PoseAnalysis" where
  "roundingThree k = poseWith k (6108006994621235 / 140737488355328) (281 / 2)"


section \<open>Properties of the rounding\<close>

lemma pow2_less_overflow: "k < 1024 \<Longrightarrow> 2 powi k < overflowBound"
proof -
  assume "k < 1024"
  then have "(2::real) powi k < 2 powi 1024"
    by (intro power_int_strict_increasing) simp_all
  then show ?thesis by (simp add: overflowBound_def del: power_numeral)
qed


lemma roundHalfEven_int [simp]: "roundHalfEven (of_int n) = n"
  by (simp add: roundHalfEven_def)

lemma roundHalfEven_le: "v \<le> of_int n \<Longrightarrow> roundHalfEven v \<le> n"
proof -
  assume le: "v \<le> of_int n"
  show ?thesis
  proof (cases "v = of_int n")
    case True
    then show ?thesis by simp
  next
    case False
    with le have "v < of_int n" by simp
    then have "\<lfloor>v\<rfloor> < n" by (simp add: floor_less_iff)
    then have "\<lfloor>v\<rfloor> + 1 \<le> n" by simp
    then show ?thesis by (auto simp: roundHalfEven_def Let_def)
  qed
qed

lemma roundHalfEven_ge: "of_int n \<le> v \<Longrightarrow> n \<le> roundHalfEven v"
proof -
  assume "of_int n \<le> v"
  then have "n \<le> \<lfloor>v\<rfloor>" by (simp add: le_floor_iff)
  then show ?thesis by (auto simp: roundHalfEven_def Let_def)
qed

text \<open>The exponent of a value, by its bounds.\<close>

lemma floor_log2_iff:
  assumes "0 < x"
  shows "(\<lfloor>log 2 x\<rfloor> = k) = (2 powi k \<le> x \<and> x < 2 powi (k + 1))"
proof -
  have a: "2 powr (real_of_int k) = 2 powi k"
    by (simp add: powr_real_of_int')
  have b: "2 powr (real_of_int k + 1) = 2 powi (k + 1)"
    using powr_real_of_int' [of 2 "k + 1"] by simp
  show ?thesis
    using floor_log_eq_powr_iff [of x 2 k] assms by (simp add: a b)
qed

lemma binade_bounds:
  assumes "v \<noteq> 0"
  shows "\<bar>v\<bar> < 2 powi (binade v + 1)" and "- 1022 \<le> binade v"
    and "- 1022 < binade v \<Longrightarrow> 2 powi (binade v) \<le> \<bar>v\<bar>"
proof -
  let ?e = "\<lfloor>log 2 \<bar>v\<bar>\<rfloor>"
  have pos: "0 < \<bar>v\<bar>" using assms by simp
  have lo: "2 powi ?e \<le> \<bar>v\<bar>" and hi: "\<bar>v\<bar> < 2 powi (?e + 1)"
    using floor_log2_iff [OF pos, of ?e] by simp_all
  have "(2::real) powi (?e + 1) \<le> 2 powi (binade v + 1)"
    by (rule power_int_increasing) (simp_all add: binade_def)
  with hi show "\<bar>v\<bar> < 2 powi (binade v + 1)" by simp
  show "- 1022 \<le> binade v" by (simp add: binade_def)
  show "2 powi (binade v) \<le> \<bar>v\<bar>" if "- 1022 < binade v"
  proof -
    from that have "binade v = ?e" by (simp add: binade_def max_def split: if_splits)
    with lo show ?thesis by simp
  qed
qed

lemma binade_eqI:
  assumes "2 powi e \<le> \<bar>v\<bar>" and "\<bar>v\<bar> < 2 powi (e + 1)" and "- 1022 \<le> e"
  shows "binade v = e"
proof -
  have pos: "0 < \<bar>v\<bar>"
    using assms(1) zero_less_power_int [of "2::real" e] by linarith
  have "\<lfloor>log 2 \<bar>v\<bar>\<rfloor> = e"
    using floor_log2_iff [OF pos, of e] assms by simp
  with assms(3) show ?thesis by (simp add: binade_def)
qed

text \<open>Exactness on the grid.\<close>

lemma fl_exact_bounded:
  assumes m: "\<bar>m\<bar> < 2 ^ 53" and j: "- 1074 \<le> j"
    and bound: "\<bar>real_of_int m * 2 powi j\<bar> < overflowBound"
  shows "fl (of_int m * 2 powi j) = Num (of_int m * 2 powi j)"
proof (cases "m = 0")
  case True
  then show ?thesis by (simp add: fl_def)
next
  case False
  define v where "v = real_of_int m * 2 powi j"
  define b where "b = binade v"
  have v0: "v \<noteq> 0" using False by (simp add: v_def)
  have absv: "\<bar>v\<bar> = real_of_int \<bar>m\<bar> * 2 powi j"
    by (simp add: v_def abs_mult)
  have "real_of_int \<bar>m\<bar> < 2 ^ 53" using m by (metis of_int_less_numeral_power_cancel_iff)
  then have "\<bar>v\<bar> < 2 ^ 53 * 2 powi j"
    unfolding absv by (simp add: mult_strict_right_mono)
  also have "\<dots> = 2 powi (53 + j)"
    by (simp add: power_int_add)
  finally have vlt: "\<bar>v\<bar> < 2 powi (53 + j)" .
  have bj: "b - 52 \<le> j"
  proof (cases "- 1022 < b")
    case True
    then have "2 powi b \<le> \<bar>v\<bar>" using binade_bounds(3) [OF v0] by (simp add: b_def)
    with vlt have "(2::real) powi b < 2 powi (53 + j)" by simp
    then have "b < 53 + j"
      by (smt (verit) power_int_increasing)
    then show ?thesis by simp
  next
    case False
    then have "b = - 1022" using binade_bounds(2) [OF v0] by (simp add: b_def)
    with j show ?thesis by simp
  qed

  define k where "k = nat (j - (b - 52))"
  have jk: "j = (b - 52) + int k" using bj by (simp add: k_def)
  have "v / 2 powi (b - 52) = real_of_int m * 2 ^ k"
    unfolding v_def by (subst jk) (simp add: power_int_add)
  also have "\<dots> = of_int (m * 2 ^ k)" by simp
  finally have q: "v / 2 powi (b - 52) = of_int (m * 2 ^ k)" .
  have r: "of_int (roundHalfEven (v / 2 powi (b - 52))) * 2 powi (b - 52) = v"
    unfolding q roundHalfEven_int
    using q by (simp add: field_simps)
  have "\<bar>v\<bar> < overflowBound" using bound by (simp add: v_def)
  then have "\<not> v \<ge> overflowBound" "\<not> v \<le> - overflowBound" by linarith+
  then have "fl v = Num v"
    using v0 r by (simp add: fl_def Let_def b_def [symmetric])
  then show ?thesis by (simp add: v_def)
qed

lemma fl_exact:
  assumes m: "\<bar>m\<bar> < 2 ^ 53" and j: "- 1074 \<le> j" "j \<le> 970"
  shows "fl (of_int m * 2 powi j) = Num (of_int m * 2 powi j)"
proof (rule fl_exact_bounded [OF m j(1)])
  have "real_of_int \<bar>m\<bar> \<le> 2 ^ 53"
    using m by (metis less_imp_le of_int_le_numeral_power_cancel_iff)
  then have "\<bar>real_of_int m * 2 powi j\<bar> \<le> 2 ^ 53 * 2 powi j"
    by (simp add: abs_mult mult_right_mono)
  also have "\<dots> = 2 powi (53 + j)"
    by (simp add: power_int_add)
  also have "\<dots> < overflowBound"
    by (rule pow2_less_overflow) (use j in simp)
  finally show "\<bar>real_of_int m * 2 powi j\<bar> < overflowBound" .
qed

text \<open>A rounded value is a double: rounding it again changes nothing.\<close>

lemma pow2_split: "(2::real) powi (b + 1) = 2 ^ 53 * 2 powi (b - 52)"
proof -
  have "b + 1 = 53 + (b - 52)" by simp
  then have "(2::real) powi (b + 1) = 2 powi (53 + (b - 52))" by (simp only:)
  also have "\<dots> = 2 powi 53 * 2 powi (b - 52)" by (rule power_int_add) simp
  finally show ?thesis by simp
qed

lemma roundHalfEven_abs_le:
  assumes "\<bar>v\<bar> \<le> of_int n"
  shows "\<bar>roundHalfEven v\<bar> \<le> n"
proof -
  have "v \<le> of_int n" using assms by simp
  then have a: "roundHalfEven v \<le> n" by (rule roundHalfEven_le)
  have "of_int (- n) \<le> v" using assms by simp
  then have "- n \<le> roundHalfEven v" by (rule roundHalfEven_ge)
  with a show ?thesis by simp
qed

lemma fl_idem:
  assumes "fl v = Num r"
  shows "fl r = Num r"
proof (cases "v = 0")
  case True
  with assms show ?thesis by (simp add: fl_def)
next
  case False
  define b where "b = binade v"
  define q where "q = (2::real) powi (b - 52)"
  define m where "m = roundHalfEven (v / q)"
  have qpos: "0 < q" by (simp add: q_def)
  from assms False have r: "r = real_of_int m * q" and rb: "\<bar>real_of_int m * q\<bar> < overflowBound"
    by (auto simp: fl_def Let_def m_def q_def b_def split: if_splits)
  have b: "- 1022 \<le> b" using binade_bounds(2) [OF False] by (simp add: b_def)
  have "\<bar>v\<bar> < 2 powi (b + 1)" using binade_bounds(1) [OF False] by (simp add: b_def)
  also have "\<dots> = 2 ^ 53 * q"
    unfolding q_def by (rule pow2_split)
  finally have "\<bar>v / q\<bar> < 2 ^ 53" using qpos by (simp add: pos_divide_less_eq)
  then have "\<bar>v / q\<bar> \<le> real_of_int (2 ^ 53)" by simp
  then have mle: "\<bar>m\<bar> \<le> 2 ^ 53" unfolding m_def by (rule roundHalfEven_abs_le)
  show ?thesis
  proof (cases "\<bar>m\<bar> < 2 ^ 53")
    case True
    have "fl (real_of_int m * 2 powi (b - 52)) = Num (real_of_int m * 2 powi (b - 52))"
      by (rule fl_exact_bounded [OF True]) (use b rb in \<open>simp_all add: q_def\<close>)
    then show ?thesis by (simp add: r q_def)
  next
    case False
    with mle have "\<bar>m\<bar> = 2 ^ 53" by simp
    then consider "m = 2 ^ 53" | "m = - (2 ^ 53)" by (auto simp: abs_if split: if_splits)
    then have "\<exists>s. \<bar>s\<bar> = (1::int) \<and> real_of_int m * q = real_of_int s * 2 powi (b + 1)"
    proof cases
      case 1
      have "real_of_int m * q = 2 ^ 53 * q" by (simp add: 1)
      also have "\<dots> = 2 powi (b + 1)"
        unfolding q_def by (rule pow2_split [symmetric])
      finally show ?thesis by (intro exI [of _ 1]) simp
    next
      case 2
      have "real_of_int m * q = - (2 ^ 53 * q)" by (simp add: 2)
      also have "2 ^ 53 * q = 2 powi (b + 1)"
        unfolding q_def by (rule pow2_split [symmetric])
      finally show ?thesis by (intro exI [of _ "- 1"]) simp
    qed
    then obtain s where s: "\<bar>s\<bar> = (1::int)"
      and eq: "real_of_int m * q = real_of_int s * 2 powi (b + 1)" by blast
    have "fl (real_of_int s * 2 powi (b + 1)) = Num (real_of_int s * 2 powi (b + 1))"
      by (rule fl_exact_bounded) (use s b rb eq in simp_all)
    then show ?thesis by (simp add: r eq)
  qed
qed


lemma isDouble_fl [simp]: "isDouble (fl v)"
  by (cases "fl v") (simp_all add: fl_idem)

lemma isDouble_fsub [simp]: "isDouble (fsub a b)"
  by (cases a; cases b) simp_all

lemma isDouble_fadd [simp]: "isDouble (fadd a b)"
  by (cases a; cases b) simp_all

lemma isDouble_fmul [simp]: "isDouble (fmul a b)"
  by (cases a; cases b) simp_all

lemma fsub_zero: "isDouble s \<Longrightarrow> fsub s (Num 0) = s"
  by (cases s) simp_all

lemma fmul_one: "isDouble s \<Longrightarrow> fmul s (Num 1) = s"
  by (cases s) simp_all

lemma fl_not_NaN [simp]: "fl v \<noteq> NaN"
  by (simp add: fl_def Let_def)







text \<open>Evaluating a rounding whose binade is known.\<close>

lemma fl_eval:
  assumes "2 powi e \<le> \<bar>v\<bar>" and "\<bar>v\<bar> < 2 powi (e + 1)" and "- 1022 \<le> e"
    and "roundHalfEven (v / 2 powi (e - 52)) = m"
    and "\<bar>real_of_int m * 2 powi (e - 52)\<bar> < overflowBound"
  shows "fl v = Num (real_of_int m * 2 powi (e - 52))"
proof -
  have b: "binade v = e" using assms(1-3) by (rule binade_eqI)
  have "(0::real) < 2 powi e" by simp
  with assms(1) have "0 < \<bar>v\<bar>" by linarith
  then have v0: "v \<noteq> 0" by simp
  from assms(5) have "\<not> real_of_int m * 2 powi (e - 52) \<ge> overflowBound"
    "\<not> real_of_int m * 2 powi (e - 52) \<le> - overflowBound" by linarith+
  then show ?thesis using v0 assms(4) by (simp add: fl_def b Let_def)
qed

lemma fl_numeral: "numeral w < (2::int) ^ 53 \<Longrightarrow> fl (numeral w) = Num (numeral w)"
  using fl_exact [of "numeral w" 0] by simp

lemma fl_neg_numeral: "numeral w < (2::int) ^ 53 \<Longrightarrow> fl (- numeral w) = Num (- numeral w)"
  using fl_exact [of "- numeral w" 0] by simp

lemma fl_0 [simp]: "fl 0 = Num 0"
  by (simp add: fl_def)

lemma fl_1 [simp]: "fl 1 = Num 1"
  using fl_exact [of 1 0] by simp

lemma fl_half: "numeral w < (2::int) ^ 53 \<Longrightarrow> fl (numeral w / 2) = Num (numeral w / 2)"
  using fl_exact [of "numeral w" "- 1"] by (simp add: power_int_minus field_simps)

lemma fl_neg_half: "numeral w < (2::int) ^ 53 \<Longrightarrow> fl (- (numeral w / 2)) = Num (- (numeral w / 2))"
  using fl_exact [of "- numeral w" "- 1"] by (simp add: power_int_minus field_simps)

text \<open>The double nearest to 0.05.\<close>



lemma fl_quarter: "numeral w < (2::int) ^ 53 \<Longrightarrow> fl (numeral w / 4) = Num (numeral w / 4)"
  using fl_exact [of "numeral w" "- 2"] by (simp add: power_int_minus field_simps)

lemma fl_one_half [simp]: "fl (1 / 2) = Num (1 / 2)"
  using fl_exact [of 1 "- 1"] by (simp add: power_int_minus)

lemma fl_one_quarter [simp]: "fl (1 / 4) = Num (1 / 4)"
  using fl_exact [of 1 "- 2"] by (simp add: power_int_minus)

lemmas fl_small = fl_numeral fl_neg_numeral fl_half fl_neg_half fl_quarter

subsection \<open>Signs and NaN\<close>



lemma fle0_not_NaN: "fle (Num 0) a \<Longrightarrow> a \<noteq> NaN"
  by (cases a) simp_all




lemma fsub_Num_not_NaN [simp]: "fsub (Num a) (Num b) \<noteq> NaN"
  by simp

lemma fadd_Num_not_NaN [simp]: "fadd (Num a) (Num b) \<noteq> NaN"
  by simp


lemma fdiv_const_not_NaN: "a \<noteq> NaN \<Longrightarrow> c \<noteq> 0 \<Longrightarrow> fdiv a (Num c) \<noteq> NaN"
  by (cases a) simp_all


lemma abs_not_NaN: "a \<noteq> NaN \<Longrightarrow> Math_abs a \<noteq> NaN"
  by (cases a) simp_all

lemma not_flt_iff_fle: "a \<noteq> NaN \<Longrightarrow> (\<not> flt (Num c) a) = fle a (Num c)"
  by (cases a) auto

subsection \<open>The running score stays a number\<close>










section \<open>What each rule contributes, and the final sort\<close>

text \<open>The push of each rule on its own: the rule run on the empty array.\<close>

definition saddleRecs :: "PoseAnalysis \<Rightarrow> FitRecommendation list" where
  "saddleRecs six = saddleHeightRule six []"

definition foreAftRecs :: "KOPSAnalysis \<Rightarrow> FitRecommendation list" where
  "foreAftRecs kopsA = foreAftRule kopsA []"

definition handlebarRecs :: "PoseAnalysis \<Rightarrow> PoseAnalysis \<Rightarrow> FitRecommendation list" where
  "handlebarRecs six three = handlebarRule six three []"

definition stemRecs :: "PoseAnalysis \<Rightarrow> PoseAnalysis \<Rightarrow> FitRecommendation list" where
  "stemRecs six three = stemRule six three []"

definition coreRecs :: "PosturalConsistency \<Rightarrow> FitRecommendation list" where
  "coreRecs pc = coreStabilityRule pc []"

definition byPriorityDesc :: "FitRecommendation \<Rightarrow> FitRecommendation \<Rightarrow> bool" where
  "byPriorityDesc a b = (priorityOrder (priority a) \<ge> priorityOrder (priority b))"

lemma saddleHeightRule_append: "saddleHeightRule six recs = recs @ saddleRecs six"
  by (simp add: saddleHeightRule_def saddleRecs_def)

lemma threeOClockCheck_id: "threeOClockCheck three recs = recs"
  by (simp add: threeOClockCheck_def)

lemma foreAftRule_append: "foreAftRule kopsA recs = recs @ foreAftRecs kopsA"
  by (simp add: foreAftRule_def foreAftRecs_def)

lemma handlebarRule_append: "handlebarRule six three recs = recs @ handlebarRecs six three"
  by (simp add: handlebarRule_def handlebarRecs_def Let_def)

lemma stemRule_append: "stemRule six three recs = recs @ stemRecs six three"
  by (simp add: stemRule_def stemRecs_def Let_def)

lemma coreStabilityRule_append: "coreStabilityRule pc recs = recs @ coreRecs pc"
  by (simp add: coreStabilityRule_def coreRecs_def)

lemma pushed_decomp:
  "pushedRecommendations six three kopsA pc =
     saddleRecs six @ foreAftRecs kopsA @ handlebarRecs six three @ stemRecs six three
     @ coreRecs pc"
  by (simp add: pushedRecommendations_def saddleHeightRule_append threeOClockCheck_id
      foreAftRule_append handlebarRule_append stemRule_append coreStabilityRule_append)

lemma saddleRecs_elem:
  "r \<in> set (saddleRecs six) \<Longrightarrow> rec_type r = saddle_height \<and> priority r = high"
  by (auto simp: saddleRecs_def saddleHeightRule_def split: if_splits)

lemma foreAftRecs_elem:
  "r \<in> set (foreAftRecs kopsA) \<Longrightarrow> rec_type r = saddle_fore_aft \<and> priority r = medium"
  by (auto simp: foreAftRecs_def foreAftRule_def split: if_splits)

lemma handlebarRecs_elem:
  "r \<in> set (handlebarRecs six three) \<Longrightarrow> rec_type r = handlebar_height \<and> priority r = medium"
  by (auto simp: handlebarRecs_def handlebarRule_def Let_def split: if_splits)

lemma stemRecs_elem:
  "r \<in> set (stemRecs six three) \<Longrightarrow> rec_type r = stem_length \<and> priority r = medium"
  by (auto simp: stemRecs_def stemRule_def Let_def split: if_splits)

lemma coreRecs_elem:
  "r \<in> set (coreRecs pc) \<Longrightarrow> rec_type r = core_stability \<and> priority r = low"
  by (auto simp: coreRecs_def coreStabilityRule_def split: if_splits)

lemma short_sorted: "length as \<le> 1 \<Longrightarrow> sorted_wrt R as"
  by (cases as) simp_all

lemma saddleRecs_short: "length (saddleRecs six) \<le> 1"
  by (simp add: saddleRecs_def saddleHeightRule_def)

lemma foreAftRecs_short: "length (foreAftRecs kopsA) \<le> 1"
  by (simp add: foreAftRecs_def foreAftRule_def)

lemma handlebarRecs_short: "length (handlebarRecs six three) \<le> 1"
  by (simp add: handlebarRecs_def handlebarRule_def Let_def)

lemma stemRecs_short: "length (stemRecs six three) \<le> 1"
  by (simp add: stemRecs_def stemRule_def Let_def)

lemma coreRecs_short: "length (coreRecs pc) \<le> 1"
  by (simp add: coreRecs_def coreStabilityRule_def)

lemma comparePriority_le0:
  "(comparePriority a b \<le> 0) = byPriorityDesc a b"
  by (simp add: comparePriority_def byPriorityDesc_def)

lemma pushed_in_order:
  "sorted_wrt byPriorityDesc (pushedRecommendations six three kopsA pc)"
proof -
  note pieces = short_sorted [OF saddleRecs_short] short_sorted [OF foreAftRecs_short]
    short_sorted [OF handlebarRecs_short] short_sorted [OF stemRecs_short]
    short_sorted [OF coreRecs_short]
  show ?thesis
    unfolding pushed_decomp sorted_wrt_append
    by (auto simp: byPriorityDesc_def pieces
        dest!: saddleRecs_elem foreAftRecs_elem handlebarRecs_elem stemRecs_elem coreRecs_elem)
qed

lemma insertBy_in_order:
  "sorted_wrt (\<lambda>a b. cmp a b \<le> 0) (a # bs) \<Longrightarrow> insertBy cmp a bs = a # bs"
  by (cases bs) simp_all

lemma stableSortBy_in_order:
  "sorted_wrt (\<lambda>a b. cmp a b \<le> 0) as \<Longrightarrow> stableSortBy cmp as = as"
proof (induction as)
  case Nil
  show ?case by (simp add: stableSortBy_def)
next
  case (Cons a as)
  have "stableSortBy cmp (a # as) = insertBy cmp a (stableSortBy cmp as)"
    by (simp add: stableSortBy_def)
  also have "\<dots> = insertBy cmp a as" using Cons by simp
  also have "\<dots> = a # as" using Cons.prems by (rule insertBy_in_order)
  finally show ?case .
qed

lemma set_insertBy: "set (insertBy cmp a bs) = insert a (set bs)"
  by (induction bs) auto

lemma sorted_insertBy:
  "sorted_wrt byPriorityDesc bs \<Longrightarrow> sorted_wrt byPriorityDesc (insertBy comparePriority a bs)"
proof (induction bs)
  case Nil
  show ?case by simp
next
  case (Cons b bs)
  show ?case
  proof (cases "comparePriority a b \<le> 0")
    case True
    then have "byPriorityDesc a b" by (simp add: comparePriority_le0)
    moreover have "\<forall>c\<in>set bs. byPriorityDesc b c" using Cons.prems by simp
    ultimately have "\<forall>c\<in>set (b # bs). byPriorityDesc a c"
      by (auto simp: byPriorityDesc_def)
    with True Cons.prems show ?thesis by simp
  next
    case False
    then have "byPriorityDesc b a" by (simp add: comparePriority_def byPriorityDesc_def)
    with False Cons show ?thesis by (simp add: set_insertBy)
  qed
qed

lemma sorted_stableSortBy: "sorted_wrt byPriorityDesc (stableSortBy comparePriority as)"
  by (induction as) (simp_all add: stableSortBy_def sorted_insertBy)

lemma filter_insertBy:
  "filter (\<lambda>r. priority r = p) (insertBy comparePriority a bs)
   = filter (\<lambda>r. priority r = p) (a # bs)"
proof (induction bs)
  case Nil
  show ?case by simp
next
  case (Cons b bs)
  show ?case
  proof (cases "comparePriority a b \<le> 0")
    case True
    then show ?thesis by simp
  next
    case False
    then have "priority a \<noteq> priority b" by (auto simp: comparePriority_def)
    with False Cons show ?thesis by auto
  qed
qed

lemma filter_stableSortBy:
  "filter (\<lambda>r. priority r = p) (stableSortBy comparePriority as)
   = filter (\<lambda>r. priority r = p) as"
  by (induction as) (simp_all add: stableSortBy_def filter_insertBy)

lemma generate_eq_pushed:
  "generateEnhancedRecommendations six three kopsA pc = pushedRecommendations six three kopsA pc"
  unfolding generateEnhancedRecommendations_def
  using pushed_in_order [of six three kopsA pc]
  by (intro stableSortBy_in_order) (simp add: comparePriority_le0 [abs_def])

section \<open>Saddle height\<close>

lemma filter_other_type:
  "(\<And>r. r \<in> set as \<Longrightarrow> rec_type r = t) \<Longrightarrow> t \<noteq> u \<Longrightarrow> filter (\<lambda>r. rec_type r = u) as = []"
  by (induction as) auto

lemma saddle_filter_pushed:
  "filter (\<lambda>r. rec_type r = saddle_height) (pushedRecommendations six three kopsA pc)
   = saddleRecs six"
proof -
  have "filter (\<lambda>r. rec_type r = saddle_height) (saddleRecs six) = saddleRecs six"
    by (rule filter_True) (simp add: saddleRecs_elem)
  moreover have "filter (\<lambda>r. rec_type r = saddle_height) (foreAftRecs kopsA) = []"
    by (rule filter_other_type [where t = saddle_fore_aft]) (simp_all add: foreAftRecs_elem)
  moreover have "filter (\<lambda>r. rec_type r = saddle_height) (handlebarRecs six three) = []"
    by (rule filter_other_type [where t = handlebar_height]) (simp_all add: handlebarRecs_elem)
  moreover have "filter (\<lambda>r. rec_type r = saddle_height) (stemRecs six three) = []"
    by (rule filter_other_type [where t = stem_length]) (simp_all add: stemRecs_elem)
  moreover have "filter (\<lambda>r. rec_type r = saddle_height) (coreRecs pc) = []"
    by (rule filter_other_type [where t = core_stability]) (simp_all add: coreRecs_elem)
  ultimately show ?thesis by (simp add: pushed_decomp)
qed

text \<open>
  C1. When the six-o'clock knee angle lies in [25, 35], the returned list holds no
  recommendation of type \<open>saddle_height\<close>. When it is below 25 or above 35, the list
  holds exactly one, with priority \<open>high\<close>, recommended value 30 and the knee angle as
  its current value.
\<close>

theorem saddle_height_rule_band:
  "(25 \<le> kneeAngle six \<and> kneeAngle six \<le> 35 \<longrightarrow>
      filter (\<lambda>r. rec_type r = saddle_height)
        (generateEnhancedRecommendations six three kopsA pc) = [])
   \<and> (kneeAngle six < 25 \<or> kneeAngle six > 35 \<longrightarrow>
      (\<exists>r. filter (\<lambda>r. rec_type r = saddle_height)
             (generateEnhancedRecommendations six three kopsA pc) = [r]
           \<and> priority r = high \<and> recommendedValue r = Num 30
           \<and> currentValue r = Num (kneeAngle six)))"
  unfolding generate_eq_pushed saddle_filter_pushed
  by (auto simp: saddleRecs_def saddleHeightRule_def)

text \<open>Knee angle 28 gives no saddle-height recommendation, knee angle 20 gives one.\<close>

theorem saddle_height_rule_band_witness:
  "filter (\<lambda>r. rec_type r = saddle_height)
     (generateEnhancedRecommendations (poseWith 28 42 155) (poseWith 80 44 158) (kopsWith 0.5)
        (analyzePosturalConsistency (poseWith 28 42 155) (poseWith 80 44 158))) = []
   \<and> (\<exists>r. filter (\<lambda>r. rec_type r = saddle_height)
             (generateEnhancedRecommendations (poseWith 20 42 155) (poseWith 80 44 158)
                (kopsWith 0.5)
                (analyzePosturalConsistency (poseWith 20 42 155) (poseWith 80 44 158))) = [r]
           \<and> priority r = high \<and> recommendedValue r = Num 30 \<and> currentValue r = Num 20)"
proof -
  have a: "25 \<le> kneeAngle (poseWith 28 42 155) \<and> kneeAngle (poseWith 28 42 155) \<le> 35"
    by (simp add: poseWith_def)
  have b: "kneeAngle (poseWith 20 42 155) < 25 \<or> kneeAngle (poseWith 20 42 155) > 35"
    by (simp add: poseWith_def)
  have c: "kneeAngle (poseWith 20 42 155) = 20"
    by (simp add: poseWith_def)
  show ?thesis
    using a b
      saddle_height_rule_band [of "poseWith 28 42 155" "poseWith 80 44 158" "kopsWith 0.5"
        "analyzePosturalConsistency (poseWith 28 42 155) (poseWith 80 44 158)"]
      saddle_height_rule_band [of "poseWith 20 42 155" "poseWith 80 44 158" "kopsWith 0.5"
        "analyzePosturalConsistency (poseWith 20 42 155) (poseWith 80 44 158)"]
    unfolding c by blast
qed

section \<open>Postural consistency\<close>

text \<open>
  C5. The consistency result of any two feature records reports as its two differences
  the absolute values of the differences of the torso angles and of the elbow angles, as
  binary64 subtraction computes them; neither is NaN. \<open>isConsistent\<close> holds exactly
  when the reported torso difference is at most 10 and the reported elbow difference at
  most 15; the issue list holds the torso issue exactly when the torso difference exceeds
  10, then the elbow issue exactly when the elbow difference exceeds 15, and nothing else;
  \<open>isConsistent\<close> holds exactly when the list is empty. The function is total: it is
  a plain HOL function with no error result.
\<close>

theorem consistency_iff_thresholds:
  "(let r = analyzePosturalConsistency six three in
      torsoAngleDifference r = Math_abs (fsub (Num (torsoAngle six)) (Num (torsoAngle three)))
    \<and> elbowAngleDifference r = Math_abs (fsub (Num (elbowAngle six)) (Num (elbowAngle three)))
    \<and> torsoAngleDifference r \<noteq> NaN \<and> elbowAngleDifference r \<noteq> NaN
    \<and> isConsistent r
        = (fle (torsoAngleDifference r) (Num 10) \<and> fle (elbowAngleDifference r) (Num 15))
    \<and> issues r = (if flt (Num 10) (torsoAngleDifference r) then [torso_issue] else [])
                  @ (if flt (Num 15) (elbowAngleDifference r) then [elbow_issue] else [])
    \<and> isConsistent r = (issues r = []))"
proof -
  define t where "t = Math_abs (fsub (Num (torsoAngle six)) (Num (torsoAngle three)))"
  define e where "e = Math_abs (fsub (Num (elbowAngle six)) (Num (elbowAngle three)))"
  have t: "t \<noteq> NaN" and e: "e \<noteq> NaN"
    by (simp_all add: t_def e_def abs_not_NaN)
  show ?thesis
    unfolding analyzePosturalConsistency_def Let_def t_def [symmetric] e_def [symmetric]
    using t e not_flt_iff_fle [OF t, of 10] not_flt_iff_fle [OF e, of 15]
    by auto
qed

text \<open>
  Torso angles 50 and 35 (difference 15) with elbow angles 155 and 158: not consistent,
  one issue. Torso angles 42 and 44: consistent.
\<close>

theorem consistency_iff_thresholds_witness:
  "isConsistent (analyzePosturalConsistency (poseWith 28 50 155) (poseWith 80 35 158)) = False
   \<and> issues (analyzePosturalConsistency (poseWith 28 50 155) (poseWith 80 35 158))
       = [torso_issue]
   \<and> torsoAngleDifference (analyzePosturalConsistency (poseWith 28 50 155) (poseWith 80 35 158))
       = Num 15
   \<and> isConsistent (analyzePosturalConsistency (poseWith 28 42 155) (poseWith 80 44 158)) = True"
  using consistency_iff_thresholds [of "poseWith 28 50 155" "poseWith 80 35 158"]
    consistency_iff_thresholds [of "poseWith 28 42 155" "poseWith 80 44 158"]
  by (simp add: Let_def poseWith_def fl_small)

text \<open>
  The subtraction rounds. For the doubles nearest to 16.1 and 6.1 the reported
  difference is 10.000000000000002 and the result is not consistent; for the doubles
  nearest to 0.3 and 10.3 the reported difference is 10 and the result is consistent.
\<close>

lemma delta_fl_1: "fl (5629499534213121 / 562949953421312) = Num (5629499534213121 / 562949953421312)"
proof -
  have "fl (5629499534213121 / 562949953421312) = Num (real_of_int 5629499534213121 * 2 powi (3 - 52))"
    by (rule fl_eval)
      (simp_all add: roundHalfEven_def Let_def power_int_minus overflowBound_def)
  then show ?thesis by (simp add: power_int_minus)
qed

lemma delta_fl_2: "fl (- (180143985094819853 / 18014398509481984)) = Num (- 10)"
proof -
  have "fl (- (180143985094819853 / 18014398509481984)) = Num (real_of_int (- 5629499534213120) * 2 powi (3 - 52))"
    by (rule fl_eval)
      (simp_all add: roundHalfEven_def Let_def power_int_minus overflowBound_def)
  then show ?thesis by (simp add: power_int_minus)
qed

lemmas delta_fl = delta_fl_1 delta_fl_2

lemma consistency_rounding_example:
  "analyzePosturalConsistency (poseWith 28 (2265873562520781 / 140737488355328) 155)
      (poseWith 80 (3433994715870003 / 562949953421312) 155)
   = \<lparr>torsoAngleDifference = Num (5629499534213121 / 562949953421312),
      elbowAngleDifference = Num 0, isConsistent = False, issues = [torso_issue]\<rparr>
   \<and> analyzePosturalConsistency (poseWith 28 (5404319552844595 / 18014398509481984) 155)
      (poseWith 80 (2899192260119757 / 281474976710656) 155)
   = \<lparr>torsoAngleDifference = Num 10,
      elbowAngleDifference = Num 0, isConsistent = True, issues = []\<rparr>"
  by (simp add: analyzePosturalConsistency_def poseWith_def Let_def delta_fl fl_small)

section \<open>Scoring\<close>





definition torsoDeduction :: "PoseAnalysis \<Rightarrow> PoseAnalysis \<Rightarrow> num" where
  "torsoDeduction six three =
     (let avgTorsoAngle = fdiv (fadd (Num (torsoAngle six)) (Num (torsoAngle three))) (Num 2)
      in if flt avgTorsoAngle (Num 35) \<or> flt (Num 55) avgTorsoAngle
         then fmul (Math_abs (fsub avgTorsoAngle (Num 45))) (Num 1)
         else Num 0)"






lemma torsoStep_minus: "isDouble s \<Longrightarrow> torsoStep six three s = fsub s (torsoDeduction six three)"
  by (simp add: torsoStep_def torsoDeduction_def Let_def fsub_zero)








lemmas score_defs = calculateEnhancedScore_def enhancedScoreBeforeClamp_def consistencyStep_def
  kopsStep_def elbowStep_def torsoStep_def kneeThreeStep_def kneeSixStep_def
  analyzePosturalConsistency_def poseWith_def kopsWith_def Let_def Math_min_def Math_max_def
  js_round_def


text \<open>
  The running score rounds. On the sample records with a three-o'clock knee angle of
  150 the running score is 58.49999999999999 and the result 58; with a three-o'clock knee
  angle of 80 the running score is 68.5 and the result 69.
\<close>

lemma score_fl_1: "fl (10393463515040973 / 35184372088832) = Num (2598365878760243 / 8796093022208)"
proof -
  have "fl (10393463515040973 / 35184372088832) = Num (real_of_int 5196731757520486 * 2 powi (8 - 52))"
    by (rule fl_eval)
      (simp_all add: roundHalfEven_def Let_def power_int_minus overflowBound_def)
  then show ?thesis by (simp add: power_int_minus)
qed

lemma score_fl_2: "fl (2598365878760243 / 17592186044416) = Num (2598365878760243 / 17592186044416)"
proof -
  have "fl (2598365878760243 / 17592186044416) = Num (real_of_int 5196731757520486 * 2 powi (7 - 52))"
    by (rule fl_eval)
      (simp_all add: roundHalfEven_def Let_def power_int_minus overflowBound_def)
  then show ?thesis by (simp add: power_int_minus)
qed

lemma score_fl_3: "fl (- (172403423235277 / 17592186044416)) = Num (- (172403423235277 / 17592186044416))"
proof -
  have "fl (- (172403423235277 / 17592186044416)) = Num (real_of_int (- 5516909543528864) * 2 powi (3 - 52))"
    by (rule fl_eval)
      (simp_all add: roundHalfEven_def Let_def power_int_minus overflowBound_def)
  then show ?thesis by (simp add: power_int_minus)
qed

lemma score_fl_4: "fl (172403423235277 / 35184372088832) = Num (172403423235277 / 35184372088832)"
proof -
  have "fl (172403423235277 / 35184372088832) = Num (real_of_int 5516909543528864 * 2 powi (2 - 52))"
    by (rule fl_eval)
      (simp_all add: roundHalfEven_def Let_def power_int_minus overflowBound_def)
  then show ?thesis by (simp add: power_int_minus)
qed

lemma score_fl_5: "fl (2624754157826867 / 35184372088832) = Num (2624754157826867 / 35184372088832)"
proof -
  have "fl (2624754157826867 / 35184372088832) = Num (real_of_int 5249508315653734 * 2 powi (6 - 52))"
    by (rule fl_eval)
      (simp_all add: roundHalfEven_def Let_def power_int_minus overflowBound_def)
  then show ?thesis by (simp add: power_int_minus)
qed

lemma score_fl_6: "fl (- (1252563646362419 / 70368744177664)) = Num (- (1252563646362419 / 70368744177664))"
proof -
  have "fl (- (1252563646362419 / 70368744177664)) = Num (real_of_int (- 5010254585449676) * 2 powi (4 - 52))"
    by (rule fl_eval)
      (simp_all add: roundHalfEven_def Let_def power_int_minus overflowBound_def)
  then show ?thesis by (simp add: power_int_minus)
qed

lemma score_fl_7: "fl (506654958079181 / 35184372088832) = Num (506654958079181 / 35184372088832)"
proof -
  have "fl (506654958079181 / 35184372088832) = Num (real_of_int 8106479329266896 * 2 powi (3 - 52))"
    by (rule fl_eval)
      (simp_all add: roundHalfEven_def Let_def power_int_minus overflowBound_def)
  then show ?thesis by (simp add: power_int_minus)
qed

lemma score_fl_8: "fl (2265873562520781 / 70368744177664) = Num (2265873562520781 / 70368744177664)"
proof -
  have "fl (2265873562520781 / 70368744177664) = Num (real_of_int 4531747125041562 * 2 powi (5 - 52))"
    by (rule fl_eval)
      (simp_all add: roundHalfEven_def Let_def power_int_minus overflowBound_def)
  then show ?thesis by (simp add: power_int_minus)
qed

lemma score_fl_9: "fl (2265873562520781 / 140737488355328) = Num (2265873562520781 / 140737488355328)"
proof -
  have "fl (2265873562520781 / 140737488355328) = Num (real_of_int 4531747125041562 * 2 powi (4 - 52))"
    by (rule fl_eval)
      (simp_all add: roundHalfEven_def Let_def power_int_minus overflowBound_def)
  then show ?thesis by (simp add: power_int_minus)
qed

lemma score_fl_10: "fl (8233143068786687 / 140737488355328) = Num (8233143068786687 / 140737488355328)"
proof -
  have "fl (8233143068786687 / 140737488355328) = Num (real_of_int 8233143068786687 * 2 powi (5 - 52))"
    by (rule fl_eval)
      (simp_all add: roundHalfEven_def Let_def power_int_minus overflowBound_def)
  then show ?thesis by (simp add: power_int_minus)
qed

lemma score_fl_11: "fl (2976597878715187 / 35184372088832) = Num (2976597878715187 / 35184372088832)"
proof -
  have "fl (2976597878715187 / 35184372088832) = Num (real_of_int 5953195757430374 * 2 powi (6 - 52))"
    by (rule fl_eval)
      (simp_all add: roundHalfEven_def Let_def power_int_minus overflowBound_def)
  then show ?thesis by (simp add: power_int_minus)
qed

lemma score_fl_12: "fl (9640517952339967 / 140737488355328) = Num (137 / 2)"
proof -
  have "fl (9640517952339967 / 140737488355328) = Num (real_of_int 4820258976169984 * 2 powi (6 - 52))"
    by (rule fl_eval)
      (simp_all add: roundHalfEven_def Let_def power_int_minus overflowBound_def)
  then show ?thesis by (simp add: power_int_minus)
qed

lemmas score_fl = score_fl_1 score_fl_2 score_fl_3 score_fl_4 score_fl_5 score_fl_6 score_fl_7 score_fl_8 score_fl_9 score_fl_10 score_fl_11 score_fl_12

lemma score_rounding_example:
  "enhancedScoreBeforeClamp roundingSix (roundingThree 150) defaultKOPS
     (analyzePosturalConsistency roundingSix (roundingThree 150))
     = Num (8233143068786687 / 140737488355328)
   \<and> calculateEnhancedScore roundingSix (roundingThree 150) defaultKOPS
     (analyzePosturalConsistency roundingSix (roundingThree 150)) = Num 58
   \<and> enhancedScoreBeforeClamp roundingSix (roundingThree 80) defaultKOPS
     (analyzePosturalConsistency roundingSix (roundingThree 80)) = Num (137 / 2)
   \<and> calculateEnhancedScore roundingSix (roundingThree 80) defaultKOPS
     (analyzePosturalConsistency roundingSix (roundingThree 80)) = Num 69"
  by (simp add: score_defs score_fl fl_small roundingSix_def roundingThree_def defaultKOPS_def)

text \<open>
  C3, as stated, fails: with torso angles 42 and 44 the mean is 43, so
  \<open>|mean - 45| * 1\<close> is 2, but the torso check subtracts nothing, because the mean lies
  inside the band [35, 55] that guards the subtraction.
\<close>

theorem torso_deduction_counterexample:
  "torsoDeduction (poseWith 28 42 155) (poseWith 80 44 158) = Num 0
   \<and> fmul (Math_abs (fsub (fdiv (fadd (Num (torsoAngle (poseWith 28 42 155)))
                                      (Num (torsoAngle (poseWith 80 44 158)))) (Num 2))
                          (Num 45))) (Num 1) = Num 2
   \<and> torsoDeduction (poseWith 28 42 155) (poseWith 80 44 158)
       \<noteq> fmul (Math_abs (fsub (fdiv (fadd (Num (torsoAngle (poseWith 28 42 155)))
                                      (Num (torsoAngle (poseWith 80 44 158)))) (Num 2))
                          (Num 45))) (Num 1)
   \<and> torsoStep (poseWith 28 42 155) (poseWith 80 44 158) (Num 100) = Num 100"
  by (simp add: torsoDeduction_def torsoStep_def poseWith_def Let_def fl_small)

text \<open>
  C3, amended. With the mean of the two torso angles computed in binary64, the torso
  check subtracts \<open>|mean - 45| * 1\<close> from the running score when the mean is below 35 or
  above 55, and leaves the running score as it is when the mean lies in [35, 55]; the mean
  is never NaN, so one of the two holds. The amount does not depend on the running score.
  In the score before clamping the amount is subtracted, in binary64 arithmetic, from what
  the two knee checks leave of 100, before the elbow, KOPS and consistency checks.
\<close>

theorem torso_deduction_guarded:
  "(let mean = fdiv (fadd (Num (torsoAngle six)) (Num (torsoAngle three))) (Num 2) in
     (flt mean (Num 35) \<or> flt (Num 55) mean \<longrightarrow>
        torsoDeduction six three = fmul (Math_abs (fsub mean (Num 45))) (Num 1)
        \<and> torsoStep six three score = fsub score (torsoDeduction six three))
   \<and> (\<not> (flt mean (Num 35) \<or> flt (Num 55) mean) \<longrightarrow>
        torsoDeduction six three = Num 0 \<and> torsoStep six three score = score)
   \<and> mean \<noteq> NaN
   \<and> (\<not> (flt mean (Num 35) \<or> flt (Num 55) mean)) = (fle (Num 35) mean \<and> fle mean (Num 55))
   \<and> (isDouble score \<longrightarrow> torsoStep six three score = fsub score (torsoDeduction six three))
   \<and> enhancedScoreBeforeClamp six three kopsA pc =
       consistencyStep pc (kopsStep kopsA (elbowStep six three
         (fsub (kneeThreeStep three (kneeSixStep six (Num 100))) (torsoDeduction six three)))))"
proof -
  let ?mean = "fdiv (fadd (Num (torsoAngle six)) (Num (torsoAngle three))) (Num 2)"
  have m: "?mean \<noteq> NaN"
    by (simp add: fdiv_const_not_NaN)
  have band: "(\<not> (flt ?mean (Num 35) \<or> flt (Num 55) ?mean))
              = (fle (Num 35) ?mean \<and> fle ?mean (Num 55))"
    using m by (cases ?mean) auto
  have ded: "torsoDeduction six three =
      (if flt ?mean (Num 35) \<or> flt (Num 55) ?mean
       then fmul (Math_abs (fsub ?mean (Num 45))) (Num 1) else Num 0)"
    by (simp only: torsoDeduction_def Let_def)
  have step: "torsoStep six three score =
      (if flt ?mean (Num 35) \<or> flt (Num 55) ?mean
       then fsub score (fmul (Math_abs (fsub ?mean (Num 45))) (Num 1)) else score)"
    by (simp only: torsoStep_def Let_def)
  have dbl: "isDouble score \<longrightarrow> torsoStep six three score = fsub score (torsoDeduction six three)"
    by (simp add: torsoStep_minus)
  have "isDouble (kneeThreeStep three (kneeSixStep six (Num 100)))"
    by (simp add: kneeThreeStep_def kneeSixStep_def Let_def fl_numeral)
  then have chain: "enhancedScoreBeforeClamp six three kopsA pc =
       consistencyStep pc (kopsStep kopsA (elbowStep six three
         (fsub (kneeThreeStep three (kneeSixStep six (Num 100))) (torsoDeduction six three))))"
    by (simp only: enhancedScoreBeforeClamp_def torsoStep_minus)
  have first: "(flt ?mean (Num 35) \<or> flt (Num 55) ?mean \<longrightarrow>
        torsoDeduction six three = fmul (Math_abs (fsub ?mean (Num 45))) (Num 1)
        \<and> torsoStep six three score = fsub score (torsoDeduction six three))
   \<and> (\<not> (flt ?mean (Num 35) \<or> flt (Num 55) ?mean) \<longrightarrow>
        torsoDeduction six three = Num 0 \<and> torsoStep six three score = score)"
  proof (cases "flt ?mean (Num 35) \<or> flt (Num 55) ?mean")
    case True
    then show ?thesis unfolding ded step by (simp only: if_True simp_thms)
  next
    case False
    then show ?thesis unfolding ded step by (simp only: if_False simp_thms)
  qed
  show ?thesis
    unfolding Let_def using first m band dbl chain by blast
qed

text \<open>
  Torso angles 20 and 30 (mean 25) cost 20 points; torso angles 40 and 40 cost nothing.
\<close>

theorem torso_deduction_guarded_witness:
  "torsoDeduction (poseWith 28 20 155) (poseWith 80 30 158) = Num 20
   \<and> torsoStep (poseWith 28 20 155) (poseWith 80 30 158) (Num 100) = Num 80
   \<and> torsoDeduction (poseWith 28 40 155) (poseWith 80 40 158) = Num 0
   \<and> torsoStep (poseWith 28 40 155) (poseWith 80 40 158) (Num 100) = Num 100"
  using torso_deduction_guarded [of "poseWith 28 20 155" "poseWith 80 30 158" "Num 100"]
    torso_deduction_guarded [of "poseWith 28 40 155" "poseWith 80 40 158" "Num 100"]
  by (simp add: poseWith_def Let_def fl_small)





section \<open>KOPS\<close>














lemma calculateKOPS_error: "calculateKOPS lms w = Inl e \<Longrightarrow> e = KOPSDetectionFailed"
  by (auto simp: calculateKOPS_def Let_def split: option.splits)




section \<open>Order of the recommendations\<close>

text \<open>
  C8. The returned list is sorted by priority, high before medium before low, and for
  each priority the recommendations of that priority stand in the order in which the rules
  pushed them. Both hold of the sort on any list of recommendations, not only on the
  lists the rules build.
\<close>

theorem recommendations_sorted_stable:
  "sorted_wrt byPriorityDesc (generateEnhancedRecommendations six three kopsA pc)
   \<and> (\<forall>p. filter (\<lambda>r. priority r = p) (generateEnhancedRecommendations six three kopsA pc)
          = filter (\<lambda>r. priority r = p) (pushedRecommendations six three kopsA pc))
   \<and> (\<forall>recs. sorted_wrt byPriorityDesc (stableSortBy comparePriority recs))
   \<and> (\<forall>recs p. filter (\<lambda>r. priority r = p) (stableSortBy comparePriority recs)
          = filter (\<lambda>r. priority r = p) recs)"
  by (simp add: generateEnhancedRecommendations_def sorted_stableSortBy filter_stableSortBy)

text \<open>
  A list that is not in priority order (low, medium, high, medium), to run the sort on.
\<close>

definition unsortedSample :: "FitRecommendation list" where
  "unsortedSample =
     coreRecs \<lparr>torsoAngleDifference = Num 15, elbowAngleDifference = Num 3,
               isConsistent = False,
               issues = [torso_issue]\<rparr>
     @ foreAftRecs (kopsWith 3)
     @ saddleRecs (poseWith 20 42 155)
     @ handlebarRecs (poseWith 20 30 155) (poseWith 80 30 158)"

text \<open>
  An input on which all five rules fire, and the sort of the list above: the two
  medium recommendations keep their order.
\<close>

theorem recommendations_sorted_stable_witness:
  "map rec_type (generateEnhancedRecommendations (poseWith 20 20 120) (poseWith 80 40 150)
      (kopsWith 3) (analyzePosturalConsistency (poseWith 20 20 120) (poseWith 80 40 150)))
     = [saddle_height, saddle_fore_aft, handlebar_height, stem_length, core_stability]
   \<and> map priority (generateEnhancedRecommendations (poseWith 20 20 120) (poseWith 80 40 150)
      (kopsWith 3) (analyzePosturalConsistency (poseWith 20 20 120) (poseWith 80 40 150)))
     = [high, medium, medium, medium, low]
   \<and> map rec_type (stableSortBy comparePriority unsortedSample)
     = [saddle_height, saddle_fore_aft, handlebar_height, core_stability]
   \<and> sorted_wrt byPriorityDesc (stableSortBy comparePriority unsortedSample)"
  using recommendations_sorted_stable [of "poseWith 20 20 120" "poseWith 80 40 150" "kopsWith 3"
      "analyzePosturalConsistency (poseWith 20 20 120) (poseWith 80 40 150)"]
  by (simp add: generateEnhancedRecommendations_def pushedRecommendations_def
        stableSortBy_def coreStabilityRule_def stemRule_def handlebarRule_def foreAftRule_def
        threeOClockCheck_def saddleHeightRule_def poseWith_def kopsWith_def Let_def
        analyzePosturalConsistency_def comparePriority_def unsortedSample_def
        coreRecs_def foreAftRecs_def saddleRecs_def handlebarRecs_def byPriorityDesc_def
        fl_small)


section \<open>Feature extraction failures\<close>

text \<open>
  The six joints the extractor reads.
\<close>

definition requiredJoints :: "nat list" where
  "requiredJoints =
     [RIGHT_SHOULDER, RIGHT_ELBOW, RIGHT_WRIST, RIGHT_HIP, RIGHT_KNEE, RIGHT_ANKLE]"

text \<open>
  C9. \<open>analyzeBikeFit\<close> fails exactly when the array has fewer than 33 entries or
  one of the six required joints (right shoulder, elbow, wrist, hip, knee, ankle) is
  absent: the first case raises the error for too few landmarks, the second the error for
  missing body parts. In every other case it returns a feature record.
\<close>

theorem analyzeBikeFit_fails_iff:
  "(analyzeBikeFit lms pedal img = Inl InsufficientLandmarks) = (length lms < 33)
   \<and> (analyzeBikeFit lms pedal img = Inl MissingBodyParts)
       = (33 \<le> length lms \<and> (\<exists>j \<in> set requiredJoints. at_index lms j = None))
   \<and> (\<exists>e. analyzeBikeFit lms pedal img = Inl e)
       = (length lms < 33 \<or> (\<exists>j \<in> set requiredJoints. at_index lms j = None))
   \<and> (\<exists>r. analyzeBikeFit lms pedal img = Inr r)
       = (\<not> (length lms < 33 \<or> (\<exists>j \<in> set requiredJoints. at_index lms j = None)))"
  by (auto simp: analyzeBikeFit_def requiredJoints_def Let_def split: option.splits)

text \<open>
  32 entries: too few landmarks. 33 entries without the right knee: missing body parts.
  33 entries, all present: a feature record.
\<close>

theorem analyzeBikeFit_fails_iff_witness:
  "analyzeBikeFit (replicate 32 (Some (lmAt 0.5 0.5))) SixOClock None = Inl InsufficientLandmarks
   \<and> analyzeBikeFit (fullBody[26 := None]) SixOClock None = Inl MissingBodyParts
   \<and> (\<exists>r. analyzeBikeFit fullBody SixOClock None = Inr r)"
proof -
  have a: "length (replicate 32 (Some (lmAt 0.5 0.5))) < 33" by simp
  have b: "33 \<le> length (fullBody[26 := None])
           \<and> (\<exists>j \<in> set requiredJoints. at_index (fullBody[26 := None]) j = None)"
    by (simp add: fullBody_def requiredJoints_def at_index_def POSE_LANDMARKS_defs)
  have c: "\<not> (length fullBody < 33 \<or> (\<exists>j \<in> set requiredJoints. at_index fullBody j = None))"
    by (simp add: fullBody_def requiredJoints_def at_index_def POSE_LANDMARKS_defs)
  show ?thesis
    using a b c
      analyzeBikeFit_fails_iff [of "replicate 32 (Some (lmAt 0.5 0.5))" SixOClock None]
      analyzeBikeFit_fails_iff [of "fullBody[26 := None]" SixOClock None]
      analyzeBikeFit_fails_iff [of fullBody SixOClock None]
    by blast
qed


section \<open>Which joints KOPS reads\<close>

text \<open>The five measurements of a feature record.\<close>

definition measurements :: "error + PoseAnalysis \<Rightarrow> error + real \<times> real \<times> real \<times> real \<times> real" where
  "measurements res =
     map_sum id (\<lambda>r. (kneeAngle r, torsoAngle r, elbowAngle r, reachDistance r, saddleHeight r)) res"

lemma at_index_update_other: "i \<noteq> j \<Longrightarrow> at_index (lms[i := v]) j = at_index lms j"
  by (simp add: at_index_def)

lemma calculateKOPS_cong:
  "at_index lms KOPS_RIGHT_KNEE = at_index lms' KOPS_RIGHT_KNEE \<Longrightarrow>
   at_index lms KOPS_RIGHT_ANKLE = at_index lms' KOPS_RIGHT_ANKLE \<Longrightarrow>
   calculateKOPS lms w = calculateKOPS lms' w"
  by (simp add: calculateKOPS_def)

lemma measurements_cong:
  assumes "length lms = length lms'"
      and "\<And>j. j \<in> set requiredJoints \<Longrightarrow> at_index lms j = at_index lms' j"
  shows "measurements (analyzeBikeFit lms pedal img) = measurements (analyzeBikeFit lms' pedal img)"
proof -
  have "at_index lms RIGHT_SHOULDER = at_index lms' RIGHT_SHOULDER"
    "at_index lms RIGHT_ELBOW = at_index lms' RIGHT_ELBOW"
    "at_index lms RIGHT_WRIST = at_index lms' RIGHT_WRIST"
    "at_index lms RIGHT_HIP = at_index lms' RIGHT_HIP"
    "at_index lms RIGHT_KNEE = at_index lms' RIGHT_KNEE"
    "at_index lms RIGHT_ANKLE = at_index lms' RIGHT_ANKLE"
    using assms(2) by (simp_all add: requiredJoints_def)
  then show ?thesis
    using assms(1)
    by (simp add: analyzeBikeFit_def measurements_def Let_def split: option.splits)
qed

text \<open>
  C10. The KOPS result is the same for two arrays that agree at indices 25 and 27. In the
  index table of the feature extractor 25 is the left knee and 27 the left ankle; its right
  knee and right ankle are 26 and 28. So changing entries 26 and 28 never changes the KOPS
  result, and changing entries 25 and 27 never changes the measurements of the feature
  extractor.
\<close>

theorem kops_reads_indices_25_27:
  "(at_index lms KOPS_RIGHT_KNEE = at_index lms' KOPS_RIGHT_KNEE
      \<and> at_index lms KOPS_RIGHT_ANKLE = at_index lms' KOPS_RIGHT_ANKLE
      \<longrightarrow> calculateKOPS lms w = calculateKOPS lms' w)
   \<and> KOPS_RIGHT_KNEE = 25 \<and> KOPS_RIGHT_ANKLE = 27
   \<and> LEFT_KNEE = 25 \<and> LEFT_ANKLE = 27 \<and> RIGHT_KNEE = 26 \<and> RIGHT_ANKLE = 28
   \<and> KOPS_RIGHT_KNEE = LEFT_KNEE \<and> KOPS_RIGHT_ANKLE = LEFT_ANKLE
   \<and> KOPS_RIGHT_KNEE \<noteq> RIGHT_KNEE \<and> KOPS_RIGHT_ANKLE \<noteq> RIGHT_ANKLE
   \<and> calculateKOPS (lms[RIGHT_KNEE := a, RIGHT_ANKLE := b]) w = calculateKOPS lms w
   \<and> measurements (analyzeBikeFit (lms[KOPS_RIGHT_KNEE := a, KOPS_RIGHT_ANKLE := b]) pedal img)
       = measurements (analyzeBikeFit lms pedal img)"
proof -
  have kops: "calculateKOPS (lms[RIGHT_KNEE := a, RIGHT_ANKLE := b]) w = calculateKOPS lms w"
    by (rule calculateKOPS_cong)
      (simp_all add: at_index_update_other KOPS_RIGHT_KNEE_def KOPS_RIGHT_ANKLE_def
        RIGHT_KNEE_def RIGHT_ANKLE_def)
  have feat: "measurements (analyzeBikeFit (lms[KOPS_RIGHT_KNEE := a, KOPS_RIGHT_ANKLE := b]) pedal img)
       = measurements (analyzeBikeFit lms pedal img)"
    by (rule measurements_cong)
      (auto simp: at_index_update_other requiredJoints_def KOPS_RIGHT_KNEE_def
        KOPS_RIGHT_ANKLE_def POSE_LANDMARKS_defs)
  show ?thesis
    using kops feat calculateKOPS_cong [of lms lms' w]
    by (simp add: KOPS_RIGHT_KNEE_def KOPS_RIGHT_ANKLE_def POSE_LANDMARKS_defs)
qed

text \<open>
  Changing entries 26 and 28 leaves the KOPS result; changing entry 25 changes it;
  removing entries 25 and 27 leaves the extractor's measurements.
\<close>

theorem kops_reads_indices_25_27_witness:
  "calculateKOPS (fullBody[26 := Some (lmAt 0.1 0.2), 28 := None]) (Some 1000)
     = calculateKOPS fullBody (Some 1000)
   \<and> calculateKOPS (fullBody[25 := Some (lmAt 0.5 0.625)]) (Some 1000)
     \<noteq> calculateKOPS fullBody (Some 1000)
   \<and> measurements (analyzeBikeFit (fullBody[25 := None, 27 := None]) ThreeOClock None)
     = measurements (analyzeBikeFit fullBody ThreeOClock None)"
proof -
  have a: "calculateKOPS (fullBody[26 := Some (lmAt 0.1 0.2), 28 := None]) (Some 1000)
     = calculateKOPS fullBody (Some 1000)"
    using kops_reads_indices_25_27 [where lms = "fullBody[26 := Some (lmAt 0.1 0.2), 28 := None]"
        and lms' = fullBody and w = "Some 1000" and a = None and b = None
        and pedal = SixOClock and img = None]
    by (simp add: KOPS_RIGHT_KNEE_def KOPS_RIGHT_ANKLE_def POSE_LANDMARKS_defs at_index_def
        fullBody_def)
  have b: "measurements (analyzeBikeFit (fullBody[25 := None, 27 := None]) ThreeOClock None)
     = measurements (analyzeBikeFit fullBody ThreeOClock None)"
    using kops_reads_indices_25_27 [where lms = fullBody and lms' = fullBody and w = None
        and a = None and b = None and pedal = ThreeOClock and img = None]
    by (simp add: KOPS_RIGHT_KNEE_def KOPS_RIGHT_ANKLE_def POSE_LANDMARKS_defs)
  have c: "calculateKOPS (fullBody[25 := Some (lmAt 0.5 0.625)]) (Some 1000)
     \<noteq> calculateKOPS fullBody (Some 1000)"
    by (simp add: calculateKOPS_def KOPS_RIGHT_KNEE_def KOPS_RIGHT_ANKLE_def at_index_def
        fullBody_def width_or_640_def or_else_def lmAt_def Let_def)
  show ?thesis using a b c by simp
qed

end
